theory Spec2Isabelle
  imports Complex_Main
begin

section \<open>Values, records and the outside world\<close>

text \<open>
  The program is one Express application (\<open>src/index.js\<close>) whose handlers talk to two
  outside services: Firebase Auth (accounts, looked up by email) and Firestore (one
  document per user in the collection \<open>users\<close>). Each handler is modelled as a function
  from the request and the state of the two services to the new state and the outcome
  of the handler. One handler runs at a time: interleavings of handlers are not modelled.

  An absent property (\<open>undefined\<close>) is \<open>None\<close>. Request bodies are typed after the
  shape the routes read: a property is either absent or has the type the gateway or
  client documents for it.
\<close>

subsection \<open>Numbers\<close>

text \<open>
  A JavaScript number is an IEEE 754 double: a finite value, \<open>NaN\<close> or one of the two
  infinities. A finite value is written \<open>Num r\<close> with a rational \<open>r\<close>; where \<open>r\<close> is
  not itself a double, \<open>Num r\<close> stands for the double nearest to it, as the literal
  \<open>0.1\<close> does in a JSON body, and every operation rounds its operands first. The
  sign of zero is not kept: nothing the program stores or tests depends on it.
\<close>

datatype jsnum = Num rat | NaN | PInf | NInf

text \<open>The number of binary digits of a positive integer.\<close>

function bitlen :: "int \<Rightarrow> nat" where
  "bitlen n = (if n \<le> 0 then 0 else Suc (bitlen (n div 2)))"
  by pat_completeness auto
termination
  by (relation "measure nat") auto

declare bitlen.simps [simp del]

definition two_p :: "int \<Rightarrow> rat" where
  "two_p e = (if 0 \<le> e then 2 ^ nat e else 1 / 2 ^ nat (- e))"

text \<open>For \<open>0 < x\<close>, the exponent \<open>e\<close> with \<open>two_p e \<le> x < two_p (e + 1)\<close>.\<close>

definition ilog2 :: "rat \<Rightarrow> int" where
  "ilog2 x = (if 1 \<le> x then int (bitlen \<lfloor>x\<rfloor>) - 1
              else - int (bitlen (\<lceil>1 / x\<rceil> - 1)))"

definition round_half_even :: "rat \<Rightarrow> int" where
  "round_half_even t =
     (let f = \<lfloor>t\<rfloor>; d = t - of_int f
      in if d < 1 / 2 then f
         else if 1 / 2 < d then f + 1
         else if even f then f else f + 1)"

text \<open>
  Rounding to the nearest double, ties to even: 53 significant bits, the exponent at
  least \<open>-1022\<close> (below it the spacing stays \<open>two_p (-1074)\<close>), and an infinity
  when the rounded magnitude reaches \<open>two_p 1024\<close>, which needs an exponent of 1023.
\<close>

definition round_double :: "rat \<Rightarrow> jsnum" where
  "round_double x =
     (if x = 0 then Num 0
      else
        let e = max (ilog2 \<bar>x\<bar>) (- 1022);
            u = two_p (e - 52);
            r = of_int (round_half_even (\<bar>x\<bar> / u)) * u
        in if 1023 \<le> e \<and> two_p 1024 \<le> r then (if 0 < x then PInf else NInf)
           else Num (if 0 < x then r else - r))"

fun to_double :: "jsnum \<Rightarrow> jsnum" where
  "to_double (Num a) = round_double a"
| "to_double x = x"

text \<open>The sum of two doubles.\<close>

fun add_doubles :: "jsnum \<Rightarrow> jsnum \<Rightarrow> jsnum" where
  "add_doubles (Num a) (Num b) = round_double (a + b)"
| "add_doubles NaN _ = NaN"
| "add_doubles _ NaN = NaN"
| "add_doubles PInf NInf = NaN"
| "add_doubles NInf PInf = NaN"
| "add_doubles PInf _ = PInf"
| "add_doubles _ PInf = PInf"
| "add_doubles NInf _ = NInf"
| "add_doubles _ NInf = NInf"

text \<open>\<open>x + y\<close> on numbers.\<close>

definition js_add :: "jsnum \<Rightarrow> jsnum \<Rightarrow> jsnum" where
  "js_add x y = add_doubles (to_double x) (to_double y)"

text \<open>\<open>x / 100\<close>, the only division of the program.\<close>

definition div_100 :: "jsnum \<Rightarrow> jsnum" where
  "div_100 x = (case to_double x of Num a \<Rightarrow> round_double (a / 100) | y \<Rightarrow> y)"

text \<open>The rationals that are doubles.\<close>

definition is_double :: "rat \<Rightarrow> bool" where
  "is_double x = (round_double x = Num x)"

text \<open>\<open>ToNumber\<close> of a property that holds a JSON number or is absent.\<close>

fun to_number :: "rat option \<Rightarrow> jsnum" where
  "to_number None = NaN"
| "to_number (Some a) = Num a"

text \<open>\<open>x || 0\<close> for a stored number: absent, \<open>0\<close> and \<open>NaN\<close> are falsy.\<close>

fun truthy :: "jsnum option \<Rightarrow> bool" where
  "truthy None = False"
| "truthy (Some NaN) = False"
| "truthy (Some (Num a)) = (round_double a \<noteq> Num 0)"
| "truthy (Some PInf) = True"
| "truthy (Some NInf) = True"

definition or_zero :: "jsnum option \<Rightarrow> jsnum" where
  "or_zero x = (if truthy x then the x else Num 0)"

record activity_entry =
  activity :: string
  timestamp :: string

text \<open>The document written by \<open>/signup\<close>; \<open>balance\<close> may be absent in a stored document.\<close>

record user_doc =
  uid :: string
  email :: string
  referralLink :: string
  referredBy :: "string option"
  balance :: "jsnum option"
  teamCount :: int
  dailyActivities :: "activity_entry list"
  createdAt :: string

text \<open>
  \<open>auth_users\<close> is the account directory of Firebase Auth (email to uid), \<open>users\<close> the
  Firestore collection (document id to document).
\<close>

record world =
  auth_users :: "string \<rightharpoonup> string"
  users :: "string \<rightharpoonup> user_doc"

text \<open>
  Whether the calls to the two services succeed in this run, beyond what the state
  decides: \<open>auth_ok\<close> is false when Firebase Auth is unreachable or refuses the
  arguments, \<open>store_ok\<close> is false when Firestore is unreachable or the write fails.
\<close>

record io =
  auth_ok :: bool
  store_ok :: bool

datatype error =
  TypeError | InvalidEmail | UserNotFound | EmailExists | AuthUnavailable
  | InvalidArgument | DocNotFound | StoreUnavailable

text \<open>
  What a handler leaves behind: the status of the response it sent, or the error it
  threw outside every \<open>try\<close> before sending one (the promise of the \<open>async\<close> handler is
  rejected and the handler itself sends nothing).
\<close>

datatype outcome = Responded nat | Rejected error

fun is_client_error :: "outcome \<Rightarrow> bool" where
  "is_client_error (Responded c) = (400 \<le> c \<and> c < 500)"
| "is_client_error (Rejected _) = False"

section \<open>The outside services\<close>

text \<open>\<open>admin.auth().getUserByEmail(email)\<close>: throws unless an account has this email.\<close>

definition getUserByEmail :: "io \<Rightarrow> world \<Rightarrow> string option \<Rightarrow> error + string" where
  "getUserByEmail io w e =
     (if \<not> auth_ok io then Inl AuthUnavailable
      else case e of
             None \<Rightarrow> Inl InvalidEmail
           | Some a \<Rightarrow> (case auth_users w a of
                          None \<Rightarrow> Inl UserNotFound
                        | Some u \<Rightarrow> Inr u))"

text \<open>
  \<open>admin.auth().createUser({email, password})\<close>: the provider chooses the uid
  (\<open>new_uid\<close>); an account without email is allowed; its checks of the email format and
  of the password are part of \<open>auth_ok\<close>.
\<close>

definition createUser ::
  "io \<Rightarrow> string \<Rightarrow> string option \<Rightarrow> string option \<Rightarrow> world \<Rightarrow> error + (string \<times> world)" where
  "createUser io new_uid e p w =
     (if \<not> auth_ok io then Inl AuthUnavailable
      else case e of
             None \<Rightarrow> Inr (new_uid, w)
           | Some a \<Rightarrow>
               (if auth_users w a \<noteq> None then Inl EmailExists
                else Inr (new_uid, w\<lparr>auth_users := (auth_users w)(a \<mapsto> new_uid)\<rparr>)))"

text \<open>\<open>db.collection("users").doc(id)\<close>: the id must be a non-empty string.\<close>

definition doc_ref :: "string option \<Rightarrow> error + string" where
  "doc_ref i = (case i of
                  None \<Rightarrow> Inl InvalidArgument
                | Some s \<Rightarrow> if s = [] then Inl InvalidArgument else Inr s)"

text \<open>
  \<open>FieldValue.arrayUnion(x)\<close> applied to a stored array: the element is added at the
  end unless an equal element is already in the array.
\<close>

definition arrayUnion :: "'a \<Rightarrow> 'a list \<Rightarrow> 'a list" where
  "arrayUnion x xs = (if x \<in> set xs then xs else xs @ [x])"

section \<open>The routes\<close>

subsection \<open>POST /signup\<close>

record signup_body =
  su_email :: "string option"
  su_password :: "string option"
  su_referredBy :: "string option"

definition generateReferralLink :: "string \<Rightarrow> string" where
  "generateReferralLink u = ''https://vest.com/ref/'' @ u"

text \<open>\<open>referredBy || null\<close>: an absent or empty string gives \<open>null\<close>.\<close>

definition or_null :: "string option \<Rightarrow> string option" where
  "or_null r = (case r of None \<Rightarrow> None | Some s \<Rightarrow> if s = [] then None else Some s)"

text \<open>
  \<open>new_uid\<close> is the uid the provider assigns and \<open>now\<close> the clock's
  \<open>new Date().toISOString()\<close>. \<open>set\<close> refuses a document with an \<open>undefined\<close> field,
  which is what an absent email gives.
\<close>

definition signup :: "io \<Rightarrow> string \<Rightarrow> string \<Rightarrow> signup_body \<Rightarrow> world \<Rightarrow> world \<times> outcome" where
  "signup io new_uid now b w =
     (case createUser io new_uid (su_email b) (su_password b) w of
        Inl err \<Rightarrow> (w, Responded 400)
      | Inr (u, w1) \<Rightarrow>
          (case doc_ref (Some u) of
             Inl err \<Rightarrow> (w1, Responded 400)
           | Inr r \<Rightarrow>
               (case su_email b of
                  None \<Rightarrow> (w1, Responded 400)
                | Some e \<Rightarrow>
                    (if \<not> store_ok io then (w1, Responded 400)
                     else
                       (w1\<lparr>users := (users w1)(r \<mapsto>
                            \<lparr>uid = u, email = e,
                             referralLink = generateReferralLink u,
                             referredBy = or_null (su_referredBy b),
                             balance = Some (Num 0), teamCount = 0,
                             dailyActivities = [], createdAt = now\<rparr>)\<rparr>,
                        Responded 201)))))"

subsection \<open>POST /paystack/webhook\<close>

record wh_customer =
  cu_email :: "string option"

text \<open>\<open>transactionId\<close> is the gateway's event id; the handler never reads it.\<close>

record wh_data =
  customer :: "wh_customer option"
  amount :: "rat option"
  transactionId :: "string option"

record wh_body =
  event :: "string option"
  data :: "wh_data option"

text \<open>
  \<open>signature\<close> is the request's \<open>x-paystack-signature\<close> header, absent when \<open>None\<close>.
\<close>

record wh_request =
  signature :: "string option"
  body :: wh_body

text \<open>
  The callback of \<open>db.runTransaction\<close> on the user's document: it throws when the
  document does not exist, else it writes the field \<open>balance\<close> and nothing else.
\<close>

definition runTransaction :: "io \<Rightarrow> string \<Rightarrow> rat option \<Rightarrow> world \<Rightarrow> error + world" where
  "runTransaction io r amt w =
     (if \<not> store_ok io then Inl StoreUnavailable
      else case users w r of
             None \<Rightarrow> Inl DocNotFound
           | Some d \<Rightarrow>
               (let currentBalance = or_zero (balance d);
                    newBalance = js_add currentBalance (div_100 (to_number amt))
                in Inr (w\<lparr>users := (users w)(r \<mapsto> d\<lparr>balance := Some newBalance\<rparr>)\<rparr>)))"

text \<open>The body of the \<open>try\<close> block.\<close>

definition credit :: "io \<Rightarrow> string option \<Rightarrow> rat option \<Rightarrow> world \<Rightarrow> error + world" where
  "credit io e amt w =
     (case getUserByEmail io w e of
        Inl err \<Rightarrow> Inl err
      | Inr u \<Rightarrow>
          (case doc_ref (Some u) of
             Inl err \<Rightarrow> Inl err
           | Inr r \<Rightarrow> runTransaction io r amt w))"

text \<open>
  Reading \<open>data.customer\<close> of an absent \<open>data\<close>, and destructuring an absent
  \<open>data.customer\<close>, throw a \<open>TypeError\<close> before the \<open>try\<close> block is entered. Every
  error thrown inside the block is caught and logged, and 200 is sent after it.
\<close>

definition webhook :: "io \<Rightarrow> wh_request \<Rightarrow> world \<Rightarrow> world \<times> outcome" where
  "webhook io req w =
     (if event (body req) = Some ''charge.success'' then
        (case data (body req) of
           None \<Rightarrow> (w, Rejected TypeError)
         | Some d \<Rightarrow>
             (case customer d of
                None \<Rightarrow> (w, Rejected TypeError)
              | Some c \<Rightarrow>
                  (case credit io (cu_email c) (amount d) w of
                     Inl err \<Rightarrow> (w, Responded 200)
                   | Inr w' \<Rightarrow> (w', Responded 200))))
      else (w, Responded 200))"

subsection \<open>POST /activity\<close>

record activity_body =
  ab_uid :: "string option"
  ab_activity :: "string option"

text \<open>
  \<open>update\<close> refuses an \<open>undefined\<close> value inside the element (an absent activity) and
  fails when the document does not exist; every error is answered 500.
\<close>

definition log_activity :: "io \<Rightarrow> string \<Rightarrow> activity_body \<Rightarrow> world \<Rightarrow> world \<times> outcome" where
  "log_activity io now b w =
     (case doc_ref (ab_uid b) of
        Inl err \<Rightarrow> (w, Responded 500)
      | Inr r \<Rightarrow>
          (case ab_activity b of
             None \<Rightarrow> (w, Responded 500)
           | Some a \<Rightarrow>
               (if \<not> store_ok io then (w, Responded 500)
                else case users w r of
                       None \<Rightarrow> (w, Responded 500)
                     | Some d \<Rightarrow>
                         (w\<lparr>users := (users w)(r \<mapsto>
                              d\<lparr>dailyActivities :=
                                   arrayUnion \<lparr>activity = a, timestamp = now\<rparr>
                                     (dailyActivities d)\<rparr>)\<rparr>,
                          Responded 200))))"

section \<open>Stating the properties\<close>

text \<open>
  The handler throws before its \<open>try\<close> block exactly on a \<open>charge.success\<close> payload
  that lacks \<open>data\<close> or \<open>data.customer\<close>; \<open>payload_incomplete\<close> names the second half.
\<close>

definition payload_incomplete :: "wh_body \<Rightarrow> bool" where
  "payload_incomplete b = (case data b of None \<Rightarrow> True | Some d \<Rightarrow> customer d = None)"

text \<open>The stored balance of a user, \<open>None\<close> when the user has no document.\<close>

definition balance_of :: "world \<Rightarrow> string \<Rightarrow> jsnum option option" where
  "balance_of w u = map_option balance (users w u)"

text \<open>A \<open>charge.success\<close> notification as the gateway sends it.\<close>

definition charge_success ::
  "string option \<Rightarrow> string \<Rightarrow> rat option \<Rightarrow> string option \<Rightarrow> wh_request" where
  "charge_success sg e amt tid =
     \<lparr>signature = sg,
      body = \<lparr>event = Some ''charge.success'',
              data = Some \<lparr>customer = Some \<lparr>cu_email = Some e\<rparr>,
                           amount = amt, transactionId = tid\<rparr>\<rparr>\<rparr>"

subsection \<open>Concrete inputs\<close>

definition io_up :: io where
  "io_up = \<lparr>auth_ok = True, store_ok = True\<rparr>"

definition world0 :: world where
  "world0 = \<lparr>auth_users = Map.empty, users = Map.empty\<rparr>"

definition alice_doc :: "jsnum option \<Rightarrow> activity_entry list \<Rightarrow> user_doc" where
  "alice_doc b acts =
     \<lparr>uid = ''u1'', email = ''a@x.com'',
      referralLink = ''https://vest.com/ref/u1'', referredBy = None,
      balance = b, teamCount = 0, dailyActivities = acts,
      createdAt = ''2024-01-01T00:00:00.000Z''\<rparr>"

definition world1 :: "jsnum option \<Rightarrow> activity_entry list \<Rightarrow> world" where
  "world1 b acts =
     \<lparr>auth_users = [''a@x.com'' \<mapsto> ''u1''],
      users = [''u1'' \<mapsto> alice_doc b acts]\<rparr>"

definition alice_signup :: signup_body where
  "alice_signup =
     \<lparr>su_email = Some ''a@x.com'', su_password = Some ''secret1'', su_referredBy = None\<rparr>"

section \<open>Facts about rounding\<close>

text \<open>
  The value \<open>round_double\<close> returns is a double: rounding it again returns it
  unchanged. So the results of \<open>js_add\<close> and \<open>div_100\<close> are doubles, and adding 0 to
  a quotient gives the quotient.
\<close>

lemma two_p_powi: "two_p e = 2 powi e"
  by (simp add: two_p_def power_int_def field_simps)

lemma two_p_pos [simp]: "0 < two_p e"
  by (simp add: two_p_powi)

lemma two_p_nz [simp]: "two_p e \<noteq> 0"
  by (simp add: two_p_powi)

lemma two_p_add: "two_p (a + b) = two_p a * two_p b"
  by (simp add: two_p_powi power_int_add)

lemma two_p_diff: "two_p (a - b) = two_p a / two_p b"
  by (simp add: two_p_powi power_int_diff)

lemma two_p_mono: "a \<le> b \<Longrightarrow> two_p a \<le> two_p b"
  by (simp add: two_p_powi power_int_increasing)

lemma two_p_strict_mono: "a < b \<Longrightarrow> two_p a < two_p b"
  by (simp add: two_p_powi power_int_strict_increasing)

lemma two_p_nat: "two_p (int k) = 2 ^ k"
  by (simp add: two_p_def)

lemma bitlen_bounds: "0 < n \<Longrightarrow> 2 ^ (bitlen n - 1) \<le> n \<and> n < 2 ^ bitlen n"
proof (induction n rule: bitlen.induct)
  case (1 n)
  show ?case
  proof (cases "n div 2 \<le> 0")
    case True
    with "1.prems" have "n = 1" by linarith
    then show ?thesis by (simp add: bitlen.simps)
  next
    case False
    then have pos: "0 < n div 2" by simp
    with "1.IH" "1.prems" have ih: "2 ^ (bitlen (n div 2) - 1) \<le> n div 2 \<and> n div 2 < 2 ^ bitlen (n div 2)"
      by simp
    have bl: "bitlen n = Suc (bitlen (n div 2))"
      using "1.prems" by (subst bitlen.simps) simp
    have bpos: "0 < bitlen (n div 2)"
      using pos by (subst bitlen.simps) simp
    then obtain k where k: "bitlen (n div 2) = Suc k" by (cases "bitlen (n div 2)") auto
    show ?thesis using ih unfolding bl k by simp linarith
  qed
qed

lemma bitlen_pos: "0 < n \<Longrightarrow> 0 < bitlen n"
  by (subst bitlen.simps) simp


lemma ilog2_ge1:
  assumes "1 \<le> x"
  shows "two_p (ilog2 x) \<le> x \<and> x < two_p (ilog2 x + 1)"
proof -
  let ?n = "\<lfloor>x\<rfloor>"
  let ?L = "bitlen ?n"
  have n: "0 < ?n" using assms by simp
  then have L: "0 < ?L" by (rule bitlen_pos)
  from bitlen_bounds [OF n] have lo: "(2::int) ^ (?L - 1) \<le> ?n" and hi: "?n < 2 ^ ?L"
    by simp_all
  have il: "ilog2 x = int ?L - 1" using assms by (simp add: ilog2_def)
  have e1: "two_p (int ?L - 1) = 2 ^ (?L - 1)"
    using L two_p_nat [of "?L - 1"] by (simp add: of_nat_diff)
  have e2: "two_p (int ?L) = 2 ^ ?L" by (rule two_p_nat)
  have "(of_int ((2::int) ^ (?L - 1)) :: rat) \<le> of_int ?n"
    using lo by (simp only: of_int_le_iff)
  also have "\<dots> \<le> x" by simp
  finally have a: "two_p (ilog2 x) \<le> x" by (simp add: il e1)
  have "?n + 1 \<le> 2 ^ ?L" using hi by simp
  then have "(of_int (?n + 1) :: rat) \<le> of_int (2 ^ ?L)" by (simp only: of_int_le_iff)
  moreover have "x < of_int (?n + 1)" by linarith
  ultimately have b: "x < two_p (ilog2 x + 1)" by (simp add: il e2)
  from a b show ?thesis ..
qed

lemma ilog2_lt1:
  assumes "0 < x" and "x < 1"
  shows "two_p (ilog2 x) \<le> x \<and> x < two_p (ilog2 x + 1)"
proof -
  let ?y = "1 / x"
  let ?m = "\<lceil>?y\<rceil> - 1"
  let ?L = "bitlen ?m"
  have y: "1 < ?y" using assms by simp
  then have "1 < \<lceil>?y\<rceil>" by linarith
  then have m: "0 < ?m" by simp
  then have L: "0 < ?L" by (rule bitlen_pos)
  from bitlen_bounds [OF m] have lo: "(2::int) ^ (?L - 1) \<le> ?m" and hi: "?m < 2 ^ ?L"
    by simp_all
  have il: "ilog2 x = - int ?L" using assms by (simp add: ilog2_def)
  have e1: "two_p (- int ?L) = 1 / 2 ^ ?L"
    by (simp add: two_p_def)
  have e2: "two_p (- int ?L + 1) = 1 / 2 ^ (?L - 1)"
  proof -
    have "- int ?L + 1 = - int (?L - 1)" using L by simp
    then show ?thesis by (simp add: two_p_def del: of_nat_diff)
  qed
  have "(of_int ((2::int) ^ (?L - 1)) :: rat) \<le> of_int ?m"
    using lo by (simp only: of_int_le_iff)
  moreover have "(of_int ?m :: rat) < ?y" by linarith
  ultimately have ylo: "2 ^ (?L - 1) < ?y" by simp
  have "\<lceil>?y\<rceil> \<le> 2 ^ ?L" using hi by simp
  then have "?y \<le> of_int (2 ^ ?L)" by (simp only: ceiling_le_iff)
  then have yhi: "?y \<le> 2 ^ ?L" by simp
  have a: "1 / 2 ^ ?L \<le> x"
    using yhi assms by (simp add: field_simps)
  have b: "x < 1 / 2 ^ (?L - 1)"
    using ylo assms by (simp add: field_simps)
  from a b show ?thesis unfolding il e1 e2 by blast
qed

lemma ilog2_bounds:
  "0 < x \<Longrightarrow> two_p (ilog2 x) \<le> x \<and> x < two_p (ilog2 x + 1)"
  using ilog2_ge1 [of x] ilog2_lt1 [of x] by (cases "1 \<le> x") auto

lemma ilog2_unique:
  assumes "0 < x" and "two_p e \<le> x" and "x < two_p (e + 1)"
  shows "ilog2 x = e"
proof (rule ccontr)
  assume ne: "ilog2 x \<noteq> e"
  from ilog2_bounds [OF assms(1)]
  have lo: "two_p (ilog2 x) \<le> x" and hi: "x < two_p (ilog2 x + 1)" by simp_all
  show False
  proof (cases "ilog2 x < e")
    case True
    then have "two_p (ilog2 x + 1) \<le> two_p e" by (intro two_p_mono) simp
    with hi assms(2) show False by simp
  next
    case False
    with ne have "e + 1 \<le> ilog2 x" by simp
    then have "two_p (e + 1) \<le> two_p (ilog2 x)" by (rule two_p_mono)
    with lo assms(3) show False by simp
  qed
qed

lemma round_half_even_int [simp]: "round_half_even (of_int n) = n"
  by (simp add: round_half_even_def)

lemma round_half_even_cases:
  "round_half_even t = \<lfloor>t\<rfloor>
   \<or> (round_half_even t = \<lfloor>t\<rfloor> + 1 \<and> 1 / 2 \<le> t - of_int \<lfloor>t\<rfloor>)"
  by (auto simp: round_half_even_def Let_def)

lemma round_half_even_le:
  assumes "t \<le> of_int m"
  shows "round_half_even t \<le> m"
proof -
  have fl: "\<lfloor>t\<rfloor> \<le> m" using assms by (simp add: floor_le_iff)
  from round_half_even_cases [of t] show ?thesis
  proof
    assume "round_half_even t = \<lfloor>t\<rfloor>"
    with fl show ?thesis by simp
  next
    assume h: "round_half_even t = \<lfloor>t\<rfloor> + 1 \<and> 1 / 2 \<le> t - of_int \<lfloor>t\<rfloor>"
    then have "(of_int \<lfloor>t\<rfloor> :: rat) < of_int m" using assms by linarith
    then have "\<lfloor>t\<rfloor> < m" by (simp only: of_int_less_iff)
    with h show ?thesis by simp
  qed
qed

lemma round_half_even_ge:
  assumes "of_int m \<le> t"
  shows "m \<le> round_half_even t"
proof -
  have "m \<le> \<lfloor>t\<rfloor>" using assms by (simp add: le_floor_iff)
  with round_half_even_cases [of t] show ?thesis by auto
qed


lemma ilog2_of_int_nonneg: "0 < n \<Longrightarrow> 0 \<le> ilog2 (of_int n)"
proof -
  assume "0 < n"
  then have "1 \<le> (of_int n :: rat)" by simp
  moreover have "0 < bitlen n" using \<open>0 < n\<close> by (rule bitlen_pos)
  ultimately show ?thesis by (simp add: ilog2_def)
qed

lemma round_mag_fixed:
  assumes a: "0 < a" and e: "e = max (ilog2 a) (- 1022)" and u: "u = two_p (e - 52)"
    and n: "n = round_half_even (a / u)" and r: "r = of_int n * u" and rpos: "0 < r"
  shows "of_int (round_half_even (r / two_p (max (ilog2 r) (- 1022) - 52)))
           * two_p (max (ilog2 r) (- 1022) - 52) = r \<and> r \<le> two_p (e + 1)"
proof -
  have upos: "0 < u" by (simp add: u)
  have npos: "0 < n"
    using rpos upos unfolding r by (simp add: zero_less_mult_iff)
  have p53: "two_p 53 = of_int (2 ^ 53)" by (simp add: two_p_def)
  have "a < two_p (ilog2 a + 1)" using ilog2_bounds [OF a] by simp
  also have "\<dots> \<le> two_p (e + 1)" by (rule two_p_mono) (simp add: e)
  finally have "a / u < two_p (e + 1) / u" using upos by (simp add: divide_strict_right_mono)
  also have "two_p (e + 1) / u = two_p 53"
    unfolding u two_p_diff [symmetric] by (rule arg_cong [of _ _ two_p]) simp
  finally have "a / u \<le> of_int (2 ^ 53)" by (simp add: p53)
  then have nle: "n \<le> 2 ^ 53" unfolding n by (rule round_half_even_le)
  have split: "two_p 53 * u = two_p (e + 1)"
    unfolding u two_p_add [symmetric] by (rule arg_cong [of _ _ two_p]) simp
  have "r \<le> of_int (2 ^ 53) * u"
    unfolding r using nle upos by (simp only: mult_le_cancel_right_pos of_int_le_iff)
  then have rle: "r \<le> two_p (e + 1)" by (simp only: p53 [symmetric] split)
  define L where "L = ilog2 (of_int n)"
  have npos': "0 < (of_int n :: rat)" using npos by simp
  from ilog2_bounds [OF npos']
  have Llo: "two_p L \<le> of_int n" and Lhi: "of_int n < two_p (L + 1)" by (simp_all add: L_def)
  have L0: "0 \<le> L" unfolding L_def using npos by (rule ilog2_of_int_nonneg)
  have L53: "L \<le> 53"
  proof (rule ccontr)
    assume "\<not> L \<le> 53"
    then have "two_p 54 \<le> two_p L" by (intro two_p_mono) simp
    moreover have "(of_int n :: rat) \<le> of_int (2 ^ 53)" using nle by (simp only: of_int_le_iff)
    moreover have "two_p 53 < two_p 54" by (rule two_p_strict_mono) simp
    ultimately show False using Llo by (simp add: p53)
  qed
  have "two_p (L + (e - 52)) \<le> r"
    unfolding r two_p_add u [symmetric] using Llo upos by simp
  moreover have "r < two_p (L + (e - 52) + 1)"
  proof -
    have "L + (e - 52) + 1 = (L + 1) + (e - 52)" by simp
    then show ?thesis
      unfolding r using Lhi upos by (simp only: two_p_add u [symmetric] mult_less_cancel_right_pos)
  qed
  ultimately have ir: "ilog2 r = L + (e - 52)" using rpos by (intro ilog2_unique)
  define e' where "e' = max (ilog2 r) (- 1022)"
  have elow: "- 1022 \<le> e" by (simp add: e)
  have fixed: "of_int (round_half_even (r / two_p (e' - 52))) * two_p (e' - 52) = r"
  proof (cases "L \<le> 52")
    case True
    then have e'le: "e' \<le> e" using elow by (simp add: e'_def ir)
    define k where "k = nat (e - e')"
    have "e - 52 = (e' - 52) + int k" using e'le by (simp add: k_def)
    then have uu: "u = two_p (e' - 52) * 2 ^ k"
      unfolding u by (simp only: two_p_add two_p_nat)
    have "r / two_p (e' - 52) = of_int (n * 2 ^ k)"
      unfolding r uu by simp
    then have "round_half_even (r / two_p (e' - 52)) = n * 2 ^ k"
      by (simp only: round_half_even_int)
    then show ?thesis unfolding r uu by simp
  next
    case False
    with L53 have L: "L = 53" by simp
    have "of_int (2 ^ 53) \<le> (of_int n :: rat)" using Llo by (simp add: L p53)
    then have "2 ^ 53 \<le> n" by (simp only: of_int_le_iff)
    with nle have n53: "n = 2 ^ 53" by simp
    have rr: "r = two_p (e + 1)" unfolding r n53 using split by (simp add: p53)
    have e': "e' = e + 1" using elow by (simp add: e'_def ir L)
    have "r / two_p (e' - 52) = two_p ((e + 1) - (e' - 52))"
      unfolding rr by (simp only: two_p_diff)
    also have "\<dots> = of_int (2 ^ 52)" by (simp add: e' two_p_def)
    finally have "round_half_even (r / two_p (e' - 52)) = 2 ^ 52"
      by (simp only: round_half_even_int)
    moreover have "two_p 52 * two_p (e' - 52) = two_p (e + 1)"
      unfolding two_p_add [symmetric] by (rule arg_cong [of _ _ two_p]) (simp add: e')
    moreover have "two_p 52 = of_int (2 ^ 52)" by (simp add: two_p_def)
    ultimately show ?thesis by (simp add: rr)
  qed
  from fixed rle show ?thesis unfolding e'_def by blast
qed


lemma round_double_0 [simp]: "round_double 0 = Num 0"
  by (simp add: round_double_def)

lemma round_double_fixed:
  assumes "round_double x = Num r"
  shows "round_double r = Num r"
proof (cases "x = 0")
  case True
  with assms show ?thesis by simp
next
  case False
  define e where "e = max (ilog2 \<bar>x\<bar>) (- 1022)"
  define u where "u = two_p (e - 52)"
  define n where "n = round_half_even (\<bar>x\<bar> / u)"
  define m where "m = of_int n * u"
  have a: "0 < \<bar>x\<bar>" using False by simp
  have upos: "0 < u" by (simp add: u_def)
  from assms False
  have fin: "\<not> (1023 \<le> e \<and> two_p 1024 \<le> m)" and r: "r = (if 0 < x then m else - m)"
    by (auto simp: round_double_def Let_def e_def u_def n_def m_def split: if_splits)
  have "(of_int 0 :: rat) \<le> \<bar>x\<bar> / u" using upos by simp
  then have "0 \<le> n" unfolding n_def by (rule round_half_even_ge)
  then have m0: "0 \<le> m" using upos by (simp add: m_def)
  show ?thesis
  proof (cases "m = 0")
    case True
    with r show ?thesis by simp
  next
    case False
    with m0 have mpos: "0 < m" by simp
    from round_mag_fixed [OF a e_def u_def n_def m_def mpos]
    have fixed: "of_int (round_half_even (m / two_p (max (ilog2 m) (- 1022) - 52)))
                   * two_p (max (ilog2 m) (- 1022) - 52) = m"
      and mle: "m \<le> two_p (e + 1)" by simp_all
    have small: "m < two_p 1024"
    proof (cases "1023 \<le> e")
      case True
      with fin show ?thesis by simp
    next
      case False
      then have "two_p (e + 1) \<le> two_p 1023" by (intro two_p_mono) simp
      moreover have "two_p 1023 < two_p 1024" by (rule two_p_strict_mono) simp
      ultimately show ?thesis using mle by simp
    qed
    have abs_r: "\<bar>r\<bar> = m" using mpos by (simp add: r)
    have rsign: "0 < r \<longleftrightarrow> 0 < x" using mpos by (simp add: r)
    have rnz: "r \<noteq> 0" using mpos by (auto simp: r)
    have "round_double r =
            (if 1023 \<le> max (ilog2 m) (- 1022) \<and> two_p 1024 \<le> m
             then (if 0 < r then PInf else NInf)
             else Num (if 0 < r then m else - m))"
      using rnz by (simp only: round_double_def Let_def abs_r fixed if_False)
    also have "\<dots> = Num (if 0 < r then m else - m)" using small by simp
    also have "\<dots> = Num r" using mpos by (auto simp: r)
    finally show ?thesis .
  qed
qed

lemma to_double_fixed: "to_double (to_double x) = to_double x"
proof (cases x)
  case (Num a)
  then show ?thesis
    by (cases "round_double a") (simp_all add: round_double_fixed)
qed simp_all

lemma round_double_not_NaN: "round_double x \<noteq> NaN"
  by (simp add: round_double_def Let_def)

lemma to_double_div_100: "to_double (div_100 x) = div_100 x"
proof (cases "to_double x")
  case (Num a)
  then show ?thesis
    by (cases "round_double (a / 100)") (simp_all add: div_100_def round_double_fixed)
qed (simp_all add: div_100_def)

lemma js_add_0_div_100: "js_add (Num 0) (div_100 x) = div_100 x"
proof (cases "div_100 x")
  case (Num r)
  with to_double_div_100 [of x] have "round_double r = Num r" by simp
  with Num show ?thesis by (simp add: js_add_def)
qed (simp_all add: js_add_def)

text \<open>
  The addition rounds: with a balance of 0.1 and an amount of 20 the sum is the double
  next above three tenths, which prints as 0.30000000000000004.
\<close>

lemma js_add_rounds:
  "js_add (Num (1 / 10)) (div_100 (Num 20)) = Num (5404319552844596 / 18014398509481984)"
  by code_simp

text \<open>
  One tenth is not a double, and above \<open>2 ^ 53\<close> the odd integers are not: a tie goes
  to the neighbour with the even significand.
\<close>

lemma round_double_tenth:
  "round_double (1 / 10) = Num (3602879701896397 / 36028797018963968)"
  by code_simp

lemma round_double_ties:
  "round_double (2 ^ 53 + 1) = Num (2 ^ 53) \<and> round_double (2 ^ 53 + 3) = Num (2 ^ 53 + 4)"
  by code_simp

section \<open>Helper facts\<close>

lemma is_double_0: "is_double 0"
  by (simp add: is_double_def)

lemma is_double_500: "is_double 500"
  by code_simp

lemma is_double_1000: "is_double 1000"
  by code_simp

lemma is_double_50000: "is_double 50000"
  by code_simp

lemma js_add_exact:
  "is_double x \<Longrightarrow> is_double y \<Longrightarrow> is_double (x + y) \<Longrightarrow> js_add (Num x) (Num y) = Num (x + y)"
  by (simp add: js_add_def is_double_def)

lemma div_100_exact:
  "is_double a \<Longrightarrow> is_double (a / 100) \<Longrightarrow> div_100 (Num a) = Num (a / 100)"
  by (simp add: div_100_def is_double_def)

lemma js_add_NaN [simp]: "js_add x NaN = NaN"
  by (cases "to_double x") (simp_all add: js_add_def)

lemma div_100_NaN [simp]: "div_100 NaN = NaN"
  by (simp add: div_100_def)

lemma div_100_50000: "div_100 (Num 50000) = Num 500"
  using div_100_exact [of 50000] by (simp add: is_double_50000 is_double_500)

lemma js_add_0_500: "js_add (Num 0) (Num 500) = Num 500"
  using js_add_exact [of 0 500] by (simp add: is_double_0 is_double_500)

lemma js_add_500_500: "js_add (Num 500) (Num 500) = Num 1000"
  using js_add_exact [of 500 500] by (simp add: is_double_500 is_double_1000)

lemma or_zero_falsy: "\<not> truthy x \<Longrightarrow> or_zero x = Num 0"
  by (simp add: or_zero_def)

lemma or_zero_double: "is_double b \<Longrightarrow> or_zero (Some (Num b)) = Num b"
  by (auto simp: or_zero_def is_double_def)

lemma js_add_or_zero: "js_add (or_zero (Some (Num b))) y = js_add (Num b) y"
  by (simp add: or_zero_def js_add_def)

lemma div_100_not_NaN: "div_100 (Num a) \<noteq> NaN"
  by (cases "round_double a") (simp_all add: div_100_def round_double_not_NaN)

lemma js_add_finite_not_NaN:
  assumes "is_double b" and "y \<noteq> NaN" and "to_double y = y"
  shows "js_add (Num b) y \<noteq> NaN"
  using assms by (cases y) (simp_all add: js_add_def is_double_def round_double_not_NaN)

lemma js_add_or_zero_any: "s \<noteq> NaN \<Longrightarrow> js_add (or_zero (Some s)) y = js_add s y"
  by (cases s) (simp_all add: js_add_or_zero, simp_all add: or_zero_def)

lemmas credit_50000 =
  or_zero_double [OF is_double_0] or_zero_double [OF is_double_500]
  div_100_50000 js_add_0_500 js_add_500_500

lemma getUserByEmail_found:
  "auth_ok io \<Longrightarrow> auth_users w e = Some u \<Longrightarrow> getUserByEmail io w (Some e) = Inr u"
  by (simp add: getUserByEmail_def)

lemma getUserByEmail_unknown:
  "auth_users w e = None \<Longrightarrow> \<exists>err. getUserByEmail io w (Some e) = Inl err"
  by (simp add: getUserByEmail_def)

lemma credit_found:
  assumes "auth_ok io" and "store_ok io"
    and "auth_users w e = Some u" and "u \<noteq> []" and "users w u = Some d"
  shows "credit io (Some e) amt w =
           Inr (w\<lparr>users := (users w)(u \<mapsto>
                  d\<lparr>balance := Some (js_add (or_zero (balance d))
                                        (div_100 (to_number amt)))\<rparr>)\<rparr>)"
  using assms
  by (simp add: credit_def getUserByEmail_found doc_ref_def runTransaction_def)

lemma credit_frame:
  "credit io e amt w = Inr w' \<Longrightarrow> auth_users w' = auth_users w"
  by (auto simp: credit_def runTransaction_def Let_def
           split: sum.splits option.splits if_splits)

lemma webhook_charge_success:
  "webhook io (charge_success sg e amt tid) w =
     (case credit io (Some e) amt w of
        Inl err \<Rightarrow> (w, Responded 200)
      | Inr w' \<Rightarrow> (w', Responded 200))"
  by (simp add: webhook_def charge_success_def)

lemma webhook_incomplete:
  "event (body req) = Some ''charge.success'' \<Longrightarrow> payload_incomplete (body req) \<Longrightarrow>
   webhook io req w = (w, Rejected TypeError)"
  by (auto simp: webhook_def payload_incomplete_def split: option.splits)

lemma webhook_complete_status:
  "\<not> payload_incomplete (body req) \<Longrightarrow> snd (webhook io req w) = Responded 200"
  by (auto simp: webhook_def payload_incomplete_def split: option.splits sum.splits)

lemma webhook_credits_any:
  assumes "auth_ok io" and "store_ok io"
    and "auth_users w e = Some u" and "u \<noteq> []"
    and "users w u = Some d" and "balance d = Some s" and "s \<noteq> NaN"
  shows "webhook io (charge_success sg e (Some a) tid) w =
           (w\<lparr>users := (users w)(u \<mapsto>
              d\<lparr>balance := Some (js_add s (div_100 (Num a)))\<rparr>)\<rparr>,
            Responded 200)"
  using assms by (simp add: webhook_charge_success credit_found js_add_or_zero_any)

lemma webhook_credits_once:
  assumes "auth_ok io" and "store_ok io"
    and "auth_users w e = Some u" and "u \<noteq> []"
    and "users w u = Some d" and "balance d = Some (Num b)"
  shows "webhook io (charge_success sg e (Some a) tid) w =
           (w\<lparr>users := (users w)(u \<mapsto>
              d\<lparr>balance := Some (js_add (Num b) (div_100 (Num a)))\<rparr>)\<rparr>,
            Responded 200)"
  using assms by (intro webhook_credits_any) simp_all

lemma signup_created:
  assumes "auth_ok io" and "store_ok io" and "u \<noteq> []" and "auth_users w e = None"
  shows "signup io u now \<lparr>su_email = Some e, su_password = p, su_referredBy = r\<rparr> w =
           (w\<lparr>auth_users := (auth_users w)(e \<mapsto> u),
              users := (users w)(u \<mapsto>
                \<lparr>uid = u, email = e, referralLink = generateReferralLink u,
                 referredBy = or_null r, balance = Some (Num 0), teamCount = 0,
                 dailyActivities = [], createdAt = now\<rparr>)\<rparr>,
            Responded 201)"
  using assms by (simp add: signup_def createUser_def doc_ref_def)

section \<open>Properties of the webhook\<close>

text \<open>
  C8. A webhook request whose event is not \<open>charge.success\<close> (for instance
  \<open>charge.failed\<close>, or no event at all) leaves the whole state unchanged and is
  answered 200.
\<close>

theorem webhook_non_success:
  "event (body req) \<noteq> Some ''charge.success'' \<Longrightarrow> webhook io req w = (w, Responded 200)"
  by (simp add: webhook_def)

theorem webhook_non_success_witness:
  "event (body \<lparr>signature = None, body = \<lparr>event = Some ''charge.failed'', data = None\<rparr>\<rparr>)
     \<noteq> Some ''charge.success''
   \<and> webhook io_up
       \<lparr>signature = None, body = \<lparr>event = Some ''charge.failed'', data = None\<rparr>\<rparr>
       (world1 (Some (Num 0)) [])
     = (world1 (Some (Num 0)) [], Responded 200)"
  using webhook_non_success
    [of "\<lparr>signature = None, body = \<lparr>event = Some ''charge.failed'', data = None\<rparr>\<rparr>"
        io_up "world1 (Some (Num 0)) []"]
  by simp

text \<open>
  C1, as amended. The handler keeps no record of the gateway's event ids and never
  reads one. Every delivery of a \<open>charge.success\<close> notification whose payer has an
  account and a document adds the amount divided by 100 to the stored balance, in the
  handler's double arithmetic, so delivering the same notification twice credits it
  twice: the balance is the initial balance plus the quotient after the first
  delivery, and that sum plus the quotient after the second. Where the amount, the
  quotient and the two sums are doubles, so that nothing is rounded, these are the
  initial balance plus the amount divided by 100, once and twice.
\<close>

theorem webhook_twice_credits_twice:
  assumes "auth_ok io" and "store_ok io"
    and "auth_users w e = Some u" and "u \<noteq> []"
    and "users w u = Some d" and "balance d = Some (Num b)" and "is_double b"
  shows "balance_of (fst (webhook io (charge_success sg e (Some a) tid) w)) u
           = Some (Some (js_add (Num b) (div_100 (Num a))))
       \<and> balance_of (fst (webhook io (charge_success sg e (Some a) tid)
                        (fst (webhook io (charge_success sg e (Some a) tid) w)))) u
           = Some (Some (js_add (js_add (Num b) (div_100 (Num a))) (div_100 (Num a))))
       \<and> (is_double a \<and> is_double (a / 100)
            \<and> is_double (b + a / 100) \<and> is_double (b + a / 100 + a / 100) \<longrightarrow>
          balance_of (fst (webhook io (charge_success sg e (Some a) tid) w)) u
            = Some (Some (Num (b + a / 100)))
          \<and> balance_of (fst (webhook io (charge_success sg e (Some a) tid)
                        (fst (webhook io (charge_success sg e (Some a) tid) w)))) u
            = Some (Some (Num (b + a / 100 + a / 100))))"
proof -
  let ?n = "charge_success sg e (Some a) tid"
  let ?q = "div_100 (Num a)"
  let ?s1 = "js_add (Num b) ?q"
  let ?s2 = "js_add ?s1 ?q"
  let ?d1 = "d\<lparr>balance := Some ?s1\<rparr>"
  let ?w1 = "w\<lparr>users := (users w)(u \<mapsto> ?d1)\<rparr>"
  let ?d2 = "?d1\<lparr>balance := Some ?s2\<rparr>"
  let ?w2 = "?w1\<lparr>users := (users ?w1)(u \<mapsto> ?d2)\<rparr>"
  have first: "webhook io ?n w = (?w1, Responded 200)"
    using assms by (intro webhook_credits_once)
  have s1: "?s1 \<noteq> NaN"
    using \<open>is_double b\<close> div_100_not_NaN to_double_div_100 by (rule js_add_finite_not_NaN)
  have "auth_users ?w1 e = Some u" and "users ?w1 u = Some ?d1" and "balance ?d1 = Some ?s1"
    using assms by simp_all
  with assms s1 have second: "webhook io ?n ?w1 = (?w2, Responded 200)"
    by (intro webhook_credits_any)
  have b1: "balance_of (fst (webhook io ?n w)) u = Some (Some ?s1)"
    by (simp add: first balance_of_def)
  have b2: "balance_of (fst (webhook io ?n (fst (webhook io ?n w)))) u = Some (Some ?s2)"
    by (simp add: first second balance_of_def)
  have exact: "?s1 = Num (b + a / 100) \<and> ?s2 = Num (b + a / 100 + a / 100)"
    if "is_double a" and "is_double (a / 100)"
      and "is_double (b + a / 100)" and "is_double (b + a / 100 + a / 100)"
  proof -
    have q: "?q = Num (a / 100)" using that by (simp add: div_100_exact)
    have sum1: "?s1 = Num (b + a / 100)"
      using that \<open>is_double b\<close> by (simp add: q js_add_exact)
    have "js_add (Num (b + a / 100)) (Num (a / 100)) = Num (b + a / 100 + a / 100)"
      using that by (intro js_add_exact)
    with sum1 q show ?thesis by simp
  qed
  show ?thesis
    using exact by (simp only: b1 b2) blast
qed

theorem webhook_twice_credits_twice_witness:
  "is_double 0 \<and> is_double 50000 \<and> is_double (50000 / 100)
   \<and> is_double (0 + 50000 / 100) \<and> is_double (0 + 50000 / 100 + 50000 / 100)
   \<and> balance_of (fst (webhook io_up (charge_success None ''a@x.com'' (Some 50000) (Some ''T1''))
                 (world1 (Some (Num 0)) []))) ''u1''
     = Some (Some (Num 500))
   \<and> balance_of (fst (webhook io_up (charge_success None ''a@x.com'' (Some 50000) (Some ''T1''))
                 (fst (webhook io_up (charge_success None ''a@x.com'' (Some 50000) (Some ''T1''))
                   (world1 (Some (Num 0)) []))))) ''u1''
     = Some (Some (Num 1000))"
  using webhook_twice_credits_twice
    [of io_up "world1 (Some (Num 0)) []" "''a@x.com''" "''u1''"
        "alice_doc (Some (Num 0)) []" 0 None 50000 "Some ''T1''"]
  by (simp add: io_up_def world1_def alice_doc_def
        is_double_0 is_double_500 is_double_1000 is_double_50000 credit_50000)

text \<open>
  C1, as stated, fails: two deliveries of one notification of 50000 to a user whose
  balance is 0 do not leave the balance at 0 + 500.
\<close>

theorem webhook_not_idempotent:
  "balance_of (fst (webhook io_up (charge_success None ''a@x.com'' (Some 50000) (Some ''T1''))
                 (fst (webhook io_up (charge_success None ''a@x.com'' (Some 50000) (Some ''T1''))
                   (world1 (Some (Num 0)) []))))) ''u1''
     \<noteq> Some (Some (Num (0 + 50000 / 100)))"
  by (simp add: webhook_charge_success credit_def getUserByEmail_def doc_ref_def
        runTransaction_def balance_of_def io_up_def world1_def alice_doc_def credit_50000)

text \<open>
  C2, as amended. The handler never reads the signature header: the state after the
  request and the outcome are the same whatever the header holds, present or not.
  The handler keeps no record of processed event ids, so none is ever marked.
\<close>

theorem webhook_ignores_signature:
  "webhook io (req\<lparr>signature := sg\<rparr>) w = webhook io req w"
  by (simp add: webhook_def)

text \<open>
  C2, as stated, fails: a \<open>charge.success\<close> request without signature header for a
  known user is answered 200 and changes that user's balance.
\<close>

theorem webhook_unsigned_accepted:
  "signature (charge_success None ''a@x.com'' (Some 50000) (Some ''T1'')) = None
   \<and> \<not> (snd (webhook io_up (charge_success None ''a@x.com'' (Some 50000) (Some ''T1''))
              (world1 (Some (Num 0)) [])) \<noteq> Responded 200
        \<and> balance_of (fst (webhook io_up
              (charge_success None ''a@x.com'' (Some 50000) (Some ''T1''))
              (world1 (Some (Num 0)) []))) ''u1''
            = balance_of (world1 (Some (Num 0)) []) ''u1'')"
  by (simp add: webhook_def charge_success_def credit_def getUserByEmail_def doc_ref_def
        runTransaction_def balance_of_def io_up_def world1_def alice_doc_def credit_50000)

text \<open>
  C5, as amended. Every request on which the handler does not throw before its \<open>try\<close>
  block (the event is not \<open>charge.success\<close>, or \<open>data\<close> and \<open>data.customer\<close> are
  present) is answered 200, whatever the signature header holds and whether or not
  the account lookup and the transaction succeed.
\<close>

theorem webhook_acknowledges:
  "event (body req) \<noteq> Some ''charge.success'' \<or> \<not> payload_incomplete (body req) \<Longrightarrow>
   snd (webhook io req w) = Responded 200"
  by (auto simp: webhook_def payload_incomplete_def split: option.splits sum.splits)

theorem webhook_acknowledges_witness:
  "\<not> payload_incomplete (body (charge_success None ''a@x.com'' (Some 50000) None))
   \<and> snd (webhook \<lparr>auth_ok = True, store_ok = False\<rparr>
            (charge_success None ''a@x.com'' (Some 50000) None) (world1 (Some (Num 0)) []))
       = Responded 200"
  using webhook_acknowledges
    [of "charge_success None ''a@x.com'' (Some 50000) None"
        "\<lparr>auth_ok = True, store_ok = False\<rparr>" "world1 (Some (Num 0)) []"]
  by (simp add: charge_success_def payload_incomplete_def)

text \<open>
  C5, as stated, fails: a request without signature header, which no verification
  could accept, is answered 200.
\<close>

theorem webhook_unsigned_acknowledged:
  "\<not> (signature \<lparr>signature = None, body = \<lparr>event = Some ''charge.failed'', data = None\<rparr>\<rparr>
         = None
       \<longrightarrow> snd (webhook io_up
                 \<lparr>signature = None, body = \<lparr>event = Some ''charge.failed'', data = None\<rparr>\<rparr>
                 (world1 (Some (Num 0)) [])) \<noteq> Responded 200)"
  by (simp add: webhook_def)

text \<open>
  C6. A \<open>charge.success\<close> notification whose payer email belongs to no account leaves
  the whole state unchanged, does not throw, and is answered 200.
\<close>

theorem webhook_unknown_user:
  "auth_users w e = None \<Longrightarrow>
   webhook io (charge_success sg e amt tid) w = (w, Responded 200)"
  by (simp add: webhook_charge_success credit_def getUserByEmail_def)

theorem webhook_unknown_user_witness:
  "auth_users (world1 (Some (Num 0)) []) ''b@x.com'' = None
   \<and> webhook io_up (charge_success None ''b@x.com'' (Some 50000) (Some ''T2''))
       (world1 (Some (Num 0)) [])
     = (world1 (Some (Num 0)) [], Responded 200)"
  using webhook_unknown_user
    [of "world1 (Some (Num 0)) []" "''b@x.com''" io_up None "Some 50000" "Some ''T2''"]
  by (simp add: world1_def)

text \<open>
  C7, as amended. The handler has no validation step: it never answers any request
  with a client error. On a payload that lacks \<open>data\<close> or \<open>data.customer\<close> it changes
  no state.
\<close>

theorem webhook_incomplete_payload:
  "\<not> is_client_error (snd (webhook io req w))
   \<and> (payload_incomplete (body req) \<longrightarrow> fst (webhook io req w) = w)"
  by (auto simp: webhook_def payload_incomplete_def split: option.splits sum.splits)

theorem webhook_incomplete_payload_witness:
  "\<not> is_client_error
       (snd (webhook io_up
          \<lparr>signature = None, body = \<lparr>event = Some ''charge.success'', data = None\<rparr>\<rparr>
          (world1 (Some (Num 0)) [])))
   \<and> payload_incomplete
       (body \<lparr>signature = None, body = \<lparr>event = Some ''charge.success'', data = None\<rparr>\<rparr>)
   \<and> fst (webhook io_up
            \<lparr>signature = None, body = \<lparr>event = Some ''charge.success'', data = None\<rparr>\<rparr>
            (world1 (Some (Num 0)) []))
       = world1 (Some (Num 0)) []"
  using webhook_incomplete_payload
    [of io_up "\<lparr>signature = None, body = \<lparr>event = Some ''charge.success'', data = None\<rparr>\<rparr>"
        "world1 (Some (Num 0)) []"]
  by (simp add: payload_incomplete_def)

text \<open>
  C7, as stated, fails twice. A \<open>charge.success\<close> payload without \<open>data\<close> makes the
  handler throw a \<open>TypeError\<close>: no client error is sent. A \<open>charge.success\<close> payload
  without \<open>amount\<close> is not rejected either: it is answered 200 and the balance of the
  payer becomes \<open>NaN\<close>.
\<close>

theorem webhook_no_client_error:
  "\<not> is_client_error
       (snd (webhook io_up
          \<lparr>signature = None, body = \<lparr>event = Some ''charge.success'', data = None\<rparr>\<rparr>
          (world1 (Some (Num 0)) [])))
   \<and> \<not> (is_client_error
          (snd (webhook io_up (charge_success None ''a@x.com'' None (Some ''T1''))
             (world1 (Some (Num 0)) [])))
        \<and> balance_of (fst (webhook io_up (charge_success None ''a@x.com'' None (Some ''T1''))
             (world1 (Some (Num 0)) []))) ''u1''
            = balance_of (world1 (Some (Num 0)) []) ''u1'')"
  by (simp add: webhook_def charge_success_def credit_def getUserByEmail_def doc_ref_def
        runTransaction_def balance_of_def io_up_def world1_def alice_doc_def credit_50000)

text \<open>
  C10. When the payer's document exists and its balance is absent, 0 or \<open>NaN\<close>, the
  handler takes 0 as the current balance: the new balance is 0 plus the amount
  divided by 100, which is the amount divided by 100; nothing else changes, and the
  request is answered 200.
\<close>

theorem webhook_missing_balance:
  assumes "auth_ok io" and "store_ok io"
    and "auth_users w e = Some u" and "u \<noteq> []"
    and "users w u = Some d" and "\<not> truthy (balance d)"
  shows "webhook io (charge_success sg e (Some a) tid) w =
           (w\<lparr>users := (users w)(u \<mapsto> d\<lparr>balance := Some (div_100 (Num a))\<rparr>)\<rparr>,
            Responded 200)"
  using assms
  by (simp add: webhook_charge_success credit_found or_zero_falsy js_add_0_div_100)

theorem webhook_missing_balance_witness:
  "\<not> truthy (balance (alice_doc None []))
   \<and> webhook io_up (charge_success None ''a@x.com'' (Some 50000) (Some ''T1''))
       (world1 None [])
     = ((world1 None [])
          \<lparr>users := (users (world1 None []))
             (''u1'' \<mapsto> (alice_doc None [])\<lparr>balance := Some (Num 500)\<rparr>)\<rparr>,
        Responded 200)"
  using webhook_missing_balance
    [of io_up "world1 None []" "''a@x.com''" "''u1''" "alice_doc None []"
        None 50000 "Some ''T1''"]
  by (simp add: io_up_def world1_def alice_doc_def credit_50000)

section \<open>Signup followed by the webhook\<close>

text \<open>
  C4, as amended. A signup that succeeds creates the user's document with balance 0.
  A \<open>charge.success\<close> notification for that user's email with amount 50000 makes the
  stored balance 500. Delivering the identical notification again credits it again:
  the balance becomes 1000.
\<close>

theorem signup_then_webhook:
  assumes "auth_ok io" and "store_ok io" and "u \<noteq> []" and "auth_users w e = None"
  shows "snd (signup io u now \<lparr>su_email = Some e, su_password = p, su_referredBy = r\<rparr> w)
           = Responded 201
       \<and> balance_of
           (fst (signup io u now \<lparr>su_email = Some e, su_password = p, su_referredBy = r\<rparr> w)) u
           = Some (Some (Num 0))
       \<and> balance_of
           (fst (webhook io (charge_success sg e (Some 50000) tid)
             (fst (signup io u now
                \<lparr>su_email = Some e, su_password = p, su_referredBy = r\<rparr> w)))) u
           = Some (Some (Num 500))
       \<and> balance_of
           (fst (webhook io (charge_success sg e (Some 50000) tid)
             (fst (webhook io (charge_success sg e (Some 50000) tid)
               (fst (signup io u now
                  \<lparr>su_email = Some e, su_password = p, su_referredBy = r\<rparr> w)))))) u
           = Some (Some (Num 1000))"
proof -
  let ?d0 = "\<lparr>uid = u, email = e, referralLink = generateReferralLink u,
              referredBy = or_null r, balance = Some (Num 0), teamCount = 0,
              dailyActivities = [], createdAt = now\<rparr>"
  let ?w0 = "w\<lparr>auth_users := (auth_users w)(e \<mapsto> u), users := (users w)(u \<mapsto> ?d0)\<rparr>"
  let ?d1 = "?d0\<lparr>balance := Some (Num 500)\<rparr>"
  let ?w1 = "?w0\<lparr>users := (users ?w0)(u \<mapsto> ?d1)\<rparr>"
  let ?d2 = "?d1\<lparr>balance := Some (Num 1000)\<rparr>"
  let ?w2 = "?w1\<lparr>users := (users ?w1)(u \<mapsto> ?d2)\<rparr>"
  let ?n = "charge_success sg e (Some 50000) tid"
  have s0: "signup io u now \<lparr>su_email = Some e, su_password = p, su_referredBy = r\<rparr> w
              = (?w0, Responded 201)"
    using assms by (rule signup_created)
  have "auth_users ?w0 e = Some u" and "users ?w0 u = Some ?d0"
    and "balance ?d0 = Some (Num 0)"
    by simp_all
  with assms have s1: "webhook io ?n ?w0 = (?w1, Responded 200)"
    by (simp add: webhook_credits_once credit_50000)
  have "auth_users ?w1 e = Some u" and "users ?w1 u = Some ?d1"
    and "balance ?d1 = Some (Num 500)"
    by simp_all
  with assms have s2: "webhook io ?n ?w1 = (?w2, Responded 200)"
    by (simp add: webhook_credits_once credit_50000)
  have "balance_of ?w0 u = Some (Some (Num 0))"
    and "balance_of ?w1 u = Some (Some (Num 500))"
    and "balance_of ?w2 u = Some (Some (Num 1000))"
    by (simp_all add: balance_of_def)
  then show ?thesis
    by (simp only: s0 s1 s2 fst_conv snd_conv simp_thms)
qed

theorem signup_then_webhook_witness:
  "snd (signup io_up ''u1'' ''2024-01-01T00:00:00.000Z'' alice_signup world0) = Responded 201
   \<and> balance_of
       (fst (signup io_up ''u1'' ''2024-01-01T00:00:00.000Z'' alice_signup world0)) ''u1''
       = Some (Some (Num 0))
   \<and> balance_of
       (fst (webhook io_up (charge_success None ''a@x.com'' (Some 50000) (Some ''T1''))
         (fst (signup io_up ''u1'' ''2024-01-01T00:00:00.000Z'' alice_signup world0)))) ''u1''
       = Some (Some (Num 500))
   \<and> balance_of
       (fst (webhook io_up (charge_success None ''a@x.com'' (Some 50000) (Some ''T1''))
         (fst (webhook io_up (charge_success None ''a@x.com'' (Some 50000) (Some ''T1''))
           (fst (signup io_up ''u1'' ''2024-01-01T00:00:00.000Z'' alice_signup world0))))))
       ''u1''
       = Some (Some (Num 1000))"
  using signup_then_webhook
    [of io_up "''u1''" world0 "''a@x.com''" "''2024-01-01T00:00:00.000Z''"
        "Some ''secret1''" None None "Some ''T1''"]
  by (simp add: io_up_def world0_def alice_signup_def)

text \<open>
  C4, as stated, fails in its last part: after the signup, the notification and its
  second delivery, the three balances are not 0, 500 and 500.
\<close>

theorem roundtrip_redelivery_credits_again:
  "\<not> (balance_of
         (fst (signup io_up ''u1'' ''2024-01-01T00:00:00.000Z'' alice_signup world0)) ''u1''
         = Some (Some (Num 0))
      \<and> balance_of
         (fst (webhook io_up (charge_success None ''a@x.com'' (Some 50000) (Some ''T1''))
           (fst (signup io_up ''u1'' ''2024-01-01T00:00:00.000Z'' alice_signup world0))))
         ''u1''
         = Some (Some (Num 500))
      \<and> balance_of
         (fst (webhook io_up (charge_success None ''a@x.com'' (Some 50000) (Some ''T1''))
           (fst (webhook io_up (charge_success None ''a@x.com'' (Some 50000) (Some ''T1''))
             (fst (signup io_up ''u1'' ''2024-01-01T00:00:00.000Z'' alice_signup world0))))))
         ''u1''
         = Some (Some (Num 500)))"
  by (simp add: signup_def createUser_def doc_ref_def webhook_charge_success credit_def
        getUserByEmail_def runTransaction_def balance_of_def io_up_def world0_def
        alice_signup_def credit_50000)

section \<open>Properties of the activity log\<close>

text \<open>
  C9, as amended. For an activity-log request that names an activity and an existing
  user, with the store answering, the entry made of the activity and the timestamp is
  added at the end of the user's \<open>dailyActivities\<close> when no equal entry is in it, and
  the sequence is left as it is when one is. In both cases the former entries keep
  their values and their order, no other field of the document changes, no other
  document and no account changes, and the request is answered 200.
\<close>

theorem log_activity_appends:
  assumes "store_ok io" and "ab_uid b = Some u" and "u \<noteq> []"
    and "ab_activity b = Some a" and "users w u = Some d"
  shows "log_activity io now b w =
           (w\<lparr>users := (users w)(u \<mapsto>
              d\<lparr>dailyActivities :=
                  (if \<lparr>activity = a, timestamp = now\<rparr> \<in> set (dailyActivities d)
                   then dailyActivities d
                   else dailyActivities d @ [\<lparr>activity = a, timestamp = now\<rparr>])\<rparr>)\<rparr>,
            Responded 200)"
  using assms by (simp add: log_activity_def doc_ref_def arrayUnion_def)

theorem log_activity_appends_witness:
  "log_activity io_up ''2024-01-02T10:00:00.000Z''
     \<lparr>ab_uid = Some ''u1'', ab_activity = Some ''login''\<rparr>
     (world1 (Some (Num 0)) [\<lparr>activity = ''login'', timestamp = ''2024-01-01T09:00:00.000Z''\<rparr>])
   = ((world1 (Some (Num 0))
         [\<lparr>activity = ''login'', timestamp = ''2024-01-01T09:00:00.000Z''\<rparr>])
        \<lparr>users := [''u1'' \<mapsto>
           alice_doc (Some (Num 0))
             [\<lparr>activity = ''login'', timestamp = ''2024-01-01T09:00:00.000Z''\<rparr>,
              \<lparr>activity = ''login'', timestamp = ''2024-01-02T10:00:00.000Z''\<rparr>]]\<rparr>,
      Responded 200)"
  using log_activity_appends
    [of io_up "\<lparr>ab_uid = Some ''u1'', ab_activity = Some ''login''\<rparr>" "''u1''" "''login''"
        "world1 (Some (Num 0))
           [\<lparr>activity = ''login'', timestamp = ''2024-01-01T09:00:00.000Z''\<rparr>]"
        "alice_doc (Some (Num 0))
           [\<lparr>activity = ''login'', timestamp = ''2024-01-01T09:00:00.000Z''\<rparr>]"
        "''2024-01-02T10:00:00.000Z''"]
  by (simp add: io_up_def world1_def alice_doc_def)

text \<open>
  C9, as stated, fails: when the entry for the same activity and the same timestamp
  is already in the sequence, the request is answered 200 and no entry is appended.
\<close>

theorem log_activity_duplicate_not_appended:
  "\<not> (map_option dailyActivities
         (users (fst (log_activity io_up ''2024-01-01T09:00:00.000Z''
            \<lparr>ab_uid = Some ''u1'', ab_activity = Some ''login''\<rparr>
            (world1 (Some (Num 0))
               [\<lparr>activity = ''login'', timestamp = ''2024-01-01T09:00:00.000Z''\<rparr>])))
          ''u1'')
       = Some ([\<lparr>activity = ''login'', timestamp = ''2024-01-01T09:00:00.000Z''\<rparr>]
               @ [\<lparr>activity = ''login'', timestamp = ''2024-01-01T09:00:00.000Z''\<rparr>]))"
  by (simp add: log_activity_def doc_ref_def arrayUnion_def io_up_def world1_def
        alice_doc_def)

end
